theory Spec2Isabelle
  imports Main
begin

text \<open>
  The shell runner of Terminal Buddy, \<^verbatim>\<open>contents/scripts/shell_runner.py\<close>: it loads the
  command history, runs one command in a shell or reports the history, saves the history
  and prints one JSON payload. Each function of the script is a function here, under its
  own name. What the script asks of the machine (environment, files, the child process) is
  read from a record \<open>world\<close> and what it does to the machine is written to it; an exception
  is the left summand of a result. Every call of the script that can raise (a test for a
  path, the reading and writing of the file, \<^verbatim>\<open>str()\<close>, the child process, the printing of the
  payload) can raise here. The functions are taken from the point where the module is
  loaded and its constants are set.
\<close>

section \<open>Text, bytes and exceptions\<close>

text \<open>
  A Python \<^verbatim>\<open>str\<close> is a sequence of Unicode code points and a \<^verbatim>\<open>bytes\<close> object a sequence
  of numbers below 256; both are lists of naturals here. \<open>lit\<close> turns an Isabelle string
  literal into the code points of its characters, so that the string constants of
  \<^verbatim>\<open>shell_runner.py\<close> can be written as they are in the source.
\<close>

type_synonym str = "nat list"

type_synonym bytes = "nat list"

definition lit :: "string \<Rightarrow> str" where
  "lit s = map of_char s"

text \<open>
  \<^verbatim>\<open>str.isspace\<close> on one code point: the white space of the Unicode character database
  (bidirectional classes WS, B, S and category Zs). \<^verbatim>\<open>str.strip()\<close> with no argument removes
  exactly these code points from both ends.
\<close>

definition isspace :: "nat \<Rightarrow> bool" where
  "isspace c \<longleftrightarrow>
     (9 \<le> c \<and> c \<le> 13) \<or> (28 \<le> c \<and> c \<le> 32) \<or> c = 133 \<or> c = 160 \<or> c = 5760 \<or>
     (8192 \<le> c \<and> c \<le> 8202) \<or> c = 8232 \<or> c = 8233 \<or> c = 8239 \<or> c = 8287 \<or> c = 12288"

definition strip :: "str \<Rightarrow> str" where
  "strip s = rev (dropWhile isspace (rev (dropWhile isspace s)))"

text \<open>
  \<^verbatim>\<open>str.lower()\<close>. The capitals A to Z and those of Latin-1 (U+00C0 to U+00DE without the
  multiplication sign U+00D7) move up by 32. For code points above U+00FF Python reads the
  case table of its Unicode database, which is not part of this development; they are left
  as they are. The program uses the lowered text only to compare it with \<^verbatim>\<open>""\<close>,
  \<^verbatim>\<open>"clear"\<close>, \<^verbatim>\<open>"cls"\<close>, \<^verbatim>\<open>"exit"\<close> and \<^verbatim>\<open>"quit"\<close>. The lower-case form of a code point above
  U+007F contains a code point above U+007F again, with the one exception of the Kelvin sign
  U+212A, which becomes \<^verbatim>\<open>k\<close>, a letter none of the five words has. So a command with such a
  code point is told apart from the five words by the program and by \<open>lower\<close> alike.
\<close>

definition lower_cp :: "nat \<Rightarrow> nat" where
  "lower_cp c =
     (if 65 \<le> c \<and> c \<le> 90 then c + 32
      else if 192 \<le> c \<and> c \<le> 222 \<and> c \<noteq> 215 then c + 32
      else c)"

definition lower :: "str \<Rightarrow> str" where
  "lower s = map lower_cp s"

text \<open>
  Exceptions are values. Only the classes that the \<^verbatim>\<open>except\<close> clauses of the program tell
  apart are listed; every one of them derives from \<^verbatim>\<open>Exception\<close>, and \<open>OSError\<close> stands for
  its subclasses (\<^verbatim>\<open>PermissionError\<close>, \<^verbatim>\<open>FileExistsError\<close> and the like) as well. An exception
  carries its class and the text \<^verbatim>\<open>str(e)\<close>.
\<close>

datatype exn_class =
    Exception
  | OSError
  | ValueError
  | JSONDecodeError
  | UnicodeDecodeError
  | UnicodeEncodeError
  | BinasciiError
  | RecursionError

datatype exn = Exn exn_class str

fun exn_cls :: "exn \<Rightarrow> exn_class" where
  "exn_cls (Exn c m) = c"

fun exn_str :: "exn \<Rightarrow> str" where
  "exn_str (Exn c m) = m"

text \<open>
  \<open>issubclass c d\<close>: \<^verbatim>\<open>json.JSONDecodeError\<close>, \<^verbatim>\<open>UnicodeDecodeError\<close>, \<^verbatim>\<open>UnicodeEncodeError\<close>
  and \<^verbatim>\<open>binascii.Error\<close> derive from \<^verbatim>\<open>ValueError\<close>; \<^verbatim>\<open>OSError\<close> and \<^verbatim>\<open>RecursionError\<close> do
  not. An \<^verbatim>\<open>except (A, B)\<close> clause catches an exception whose class is a subclass of one of
  the classes it names.
\<close>

definition issubclass :: "exn_class \<Rightarrow> exn_class \<Rightarrow> bool" where
  "issubclass c d \<longleftrightarrow>
     c = d \<or> d = Exception \<or>
     (d = ValueError \<and>
      (c = JSONDecodeError \<or> c = UnicodeDecodeError \<or> c = UnicodeEncodeError \<or> c = BinasciiError))"

definition catches :: "exn_class list \<Rightarrow> exn \<Rightarrow> bool" where
  "catches cs e \<longleftrightarrow> list_ex (issubclass (exn_cls e)) cs"


section \<open>The history record\<close>

text \<open>
  The history is a Python dictionary with the keys \<^verbatim>\<open>"history"\<close> and \<^verbatim>\<open>"last_command"\<close>.
  A field is \<open>None\<close> when the dictionary has no such key; the program reads both keys with
  \<^verbatim>\<open>.get(key, default)\<close>.
\<close>

record hist =
  history :: "str list option"
  last_command :: "str option"

definition DEFAULT_HISTORY :: hist where
  "DEFAULT_HISTORY = \<lparr>history = Some [], last_command = Some []\<rparr>"

definition get_history :: "hist \<Rightarrow> str list" where
  \<comment> \<open>\<^verbatim>\<open>history.get("history", [])\<close>\<close>
  "get_history h = (case history h of None \<Rightarrow> [] | Some xs \<Rightarrow> xs)"

definition get_last_command :: "hist \<Rightarrow> str" where
  \<comment> \<open>\<^verbatim>\<open>history.get("last_command", "")\<close>\<close>
  "get_last_command h = (case last_command h of None \<Rightarrow> [] | Some c \<Rightarrow> c)"

text \<open>
  The slice \<^verbatim>\<open>xs[:k]\<close>: the first \<open>k\<close> elements when \<open>k\<close> is not negative, all but the last
  \<open>-k\<close> elements when it is.
\<close>

definition slice_to :: "'a list \<Rightarrow> int \<Rightarrow> 'a list" where
  "slice_to xs k =
     (if k < 0 then take (nat (int (length xs) + k)) xs else take (nat k) xs)"

definition update_history :: "hist \<Rightarrow> str \<Rightarrow> int \<Rightarrow> hist" where
  "update_history h command limit =
     (let commands = filter (\<lambda>entry. entry \<noteq> command) (get_history h);
          commands = command # commands
      in \<lparr>history = Some (slice_to commands limit), last_command = Some command\<rparr>)"

text \<open>The two invariants of the data model: the length bound and the absence of duplicates.\<close>

definition hist_inv :: "int \<Rightarrow> hist \<Rightarrow> bool" where
  "hist_inv limit h \<longleftrightarrow>
     int (length (get_history h)) \<le> limit \<and> distinct (get_history h)"


section \<open>Values read from the history file\<close>

text \<open>
  What \<^verbatim>\<open>json.load\<close> returns. An object is the list of its pairs, each key once
  (\<^verbatim>\<open>json.load\<close> keeps the last value of a key that the file repeats). A number is given by its
  literal in the file and by whether the value Python reads from it is nonzero, which is all
  that \<^verbatim>\<open>bool()\<close> asks of it.
\<close>

datatype json =
    JObject "(str \<times> json) list"
  | JArray "json list"
  | JString str
  | JNumber str bool
  | JBool bool
  | JNull

fun truthy :: "json \<Rightarrow> bool" where
  "truthy (JObject kvs) = (kvs \<noteq> [])"
| "truthy (JArray xs) = (xs \<noteq> [])"
| "truthy (JString s) = (s \<noteq> [])"
| "truthy (JNumber t nonzero) = nonzero"
| "truthy (JBool b) = b"
| "truthy JNull = False"

text \<open>
  The state of \<^verbatim>\<open>HISTORY_FILE\<close> as \<open>load_history\<close> meets it:
  \<^item> \<open>ExistsRaises e\<close>: \<^verbatim>\<open>HISTORY_FILE.exists()\<close> raises \<open>e\<close> (before Python 3.14 it raises
    the \<^verbatim>\<open>OSError\<close> of \<^verbatim>\<open>stat\<close> on a directory that may not be searched);
  \<^item> \<open>Missing\<close>: \<^verbatim>\<open>HISTORY_FILE.exists()\<close> answers False;
  \<^item> \<open>ReadRaises e\<close>: the file exists and opening it or \<^verbatim>\<open>json.load\<close> raises \<open>e\<close>: \<^verbatim>\<open>OSError\<close>
    for a file that cannot be opened or read, \<^verbatim>\<open>UnicodeDecodeError\<close> for bytes that are not
    UTF-8 (the file is opened as UTF-8 text), \<^verbatim>\<open>json.JSONDecodeError\<close> for text that the
    parser refuses, \<^verbatim>\<open>RecursionError\<close> for text nested too deep, \<^verbatim>\<open>ValueError\<close> for an integer
    of too many digits;
  \<^item> \<open>Parsed v\<close>: \<^verbatim>\<open>json.load\<close> returns \<open>v\<close>.
\<close>

datatype file_status = ExistsRaises exn | Missing | ReadRaises exn | Parsed json


section \<open>The machine around the program\<close>

record completed =
  stdout :: str
  stderr :: str
  returncode :: int

record response =
  r_type :: str
  r_command :: str
  r_stdout :: str
  r_stderr :: str
  r_exit_code :: int
  r_shell :: str
  r_history :: "str list"
  r_last_command :: str
  r_action :: "str option"

record history_payload =
  hp_type :: str
  hp_history :: "str list"
  hp_last_command :: str
  hp_shell :: str

record error_payload =
  ep_type :: str
  ep_stderr :: str
  ep_exit_code :: int

datatype payload =
    RunPayload response
  | HistoryPayload history_payload
  | ErrorPayload error_payload

text \<open>
  Everything the program reads from or does to its surroundings:
  \<^item> \<open>environ\<close>: \<^verbatim>\<open>os.environ\<close>;
  \<^item> \<open>existing\<close>: the paths \<open>p\<close> for which \<^verbatim>\<open>Path(p).exists()\<close> answers True, as far as the
    search for a shell asks;
  \<^item> \<open>exists_raises\<close>: the paths for which \<^verbatim>\<open>Path(p).exists()\<close> raises, with the exception (a
    name that is too long, a directory that may not be searched);
  \<^item> \<open>history_file\<close>: the state of \<^verbatim>\<open>HISTORY_FILE\<close>;
  \<^item> \<open>mkdir_raises\<close>: the exception of \<^verbatim>\<open>HISTORY_DIR.mkdir(parents=True, exist_ok=True)\<close>, if
    it raises one (the path is taken by a file, a parent is not writable);
  \<^item> \<open>open_raises\<close>: the exception of \<^verbatim>\<open>HISTORY_FILE.open("w", encoding="utf-8")\<close>, if it
    raises one; the file is then as it was;
  \<^item> \<open>dump_raises\<close>: the exception of \<^verbatim>\<open>json.dump\<close> or of closing the file, if one is raised,
    and the state the file is left in, \<^verbatim>\<open>open\<close> having emptied it;
  \<^item> \<open>subprocess_run command shell\<close>: what \<^verbatim>\<open>subprocess.run(command, shell=True,
    executable=shell, capture_output=True, text=True, check=False)\<close> returns or raises; what
    the command itself does to the machine is not followed;
  \<^item> \<open>render\<close>: what \<^verbatim>\<open>str()\<close> returns or raises for a number, a list or a dictionary (the
    \<^verbatim>\<open>repr\<close> of a float and of a string inside a list depend on tables of the interpreter);
  \<^item> \<open>stdout_raises\<close>: the exception of writing a payload to standard output, if that
    raises one (\<^verbatim>\<open>UnicodeEncodeError\<close> on an output that cannot encode the text, a closed
    pipe);
  \<^item> \<open>run_calls\<close>: the calls of \<^verbatim>\<open>subprocess.run\<close> made so far, as pairs of command and shell;
  \<^item> \<open>emitted\<close>: the payloads written to standard output so far.
\<close>

record world =
  environ :: "(str \<times> str) list"
  existing :: "str list"
  exists_raises :: "(str \<times> exn) list"
  history_file :: file_status
  mkdir_raises :: "exn option"
  open_raises :: "exn option"
  dump_raises :: "(exn \<times> file_status) option"
  subprocess_run :: "str \<Rightarrow> str \<Rightarrow> exn + completed"
  render :: "json \<Rightarrow> exn + str"
  stdout_raises :: "payload \<Rightarrow> exn option"
  run_calls :: "(str \<times> str) list"
  emitted :: "payload list"

definition py_str :: "world \<Rightarrow> json \<Rightarrow> exn + str" where
  \<comment> \<open>\<^verbatim>\<open>str(v)\<close>\<close>
  "py_str w v =
     (case v of
        JString s \<Rightarrow> Inr s
      | JBool b \<Rightarrow> Inr (if b then lit ''True'' else lit ''False'')
      | JNull \<Rightarrow> Inr (lit ''None'')
      | _ \<Rightarrow> render w v)"

fun str_all :: "world \<Rightarrow> json list \<Rightarrow> exn + str list" where
  \<comment> \<open>\<^verbatim>\<open>[str(entry) for entry in entries]\<close>\<close>
  "str_all w [] = Inr []"
| "str_all w (entry # entries) =
     (case py_str w entry of
        Inl e \<Rightarrow> Inl e
      | Inr s \<Rightarrow> (case str_all w entries of Inl e \<Rightarrow> Inl e | Inr ss \<Rightarrow> Inr (s # ss)))"


section \<open>Loading and saving the history\<close>

fun is_dict :: "json \<Rightarrow> bool" where
  \<comment> \<open>\<^verbatim>\<open>isinstance(v, dict)\<close>\<close>
  "is_dict (JObject kvs) = True"
| "is_dict v = False"

fun is_list :: "json \<Rightarrow> bool" where
  \<comment> \<open>\<^verbatim>\<open>isinstance(v, list)\<close>\<close>
  "is_list (JArray xs) = True"
| "is_list v = False"

fun dict_get :: "json \<Rightarrow> str \<Rightarrow> json \<Rightarrow> json" where
  \<comment> \<open>\<^verbatim>\<open>v.get(key, default)\<close> on a dictionary\<close>
  "dict_get (JObject kvs) key dflt =
     (case map_of kvs key of None \<Rightarrow> dflt | Some v \<Rightarrow> v)"
| "dict_get v key dflt = dflt"

fun items :: "json \<Rightarrow> json list" where
  \<comment> \<open>the elements a \<^verbatim>\<open>for\<close> loop over a list visits\<close>
  "items (JArray xs) = xs"
| "items v = []"

text \<open>
  \<open>load_history\<close>. The test \<^verbatim>\<open>HISTORY_FILE.exists()\<close> stands before the \<^verbatim>\<open>try\<close>, so its
  exception leaves the function. An exception of the \<^verbatim>\<open>with\<close> block leaves the function
  unless it is a \<^verbatim>\<open>json.JSONDecodeError\<close> or an \<^verbatim>\<open>OSError\<close>. The entries are turned into text
  before the last command is.
\<close>

definition load_history :: "world \<Rightarrow> exn + hist" where
  "load_history w =
     (case history_file w of
        ExistsRaises e \<Rightarrow> Inl e
      | Missing \<Rightarrow> Inr DEFAULT_HISTORY
      | ReadRaises e \<Rightarrow>
          if catches [JSONDecodeError, OSError] e then Inr DEFAULT_HISTORY else Inl e
      | Parsed data \<Rightarrow>
          if \<not> is_dict data then Inr DEFAULT_HISTORY
          else
            (let history = dict_get data (lit ''history'') (JArray []);
                 last_command = dict_get data (lit ''last_command'') (JString []);
                 history = (if \<not> is_list history then JArray [] else history)
             in case str_all w (items history) of
                  Inl e \<Rightarrow> Inl e
                | Inr entries \<Rightarrow>
                    (case (if truthy last_command then py_str w last_command else Inr []) of
                       Inl e \<Rightarrow> Inl e
                     | Inr last_text \<Rightarrow>
                         Inr \<lparr>history = Some entries, last_command = Some last_text\<rparr>)))"

text \<open>
  The JSON value that \<^verbatim>\<open>json.dump\<close> writes for a history record and \<^verbatim>\<open>json.load\<close> reads back
  (the order of the two keys is that of \<^verbatim>\<open>DEFAULT_HISTORY\<close>).
\<close>

definition json_of_hist :: "hist \<Rightarrow> json" where
  "json_of_hist h =
     JObject
       ((case last_command h of None \<Rightarrow> [] | Some c \<Rightarrow> [(lit ''last_command'', JString c)]) @
        (case history h of
           None \<Rightarrow> [] | Some xs \<Rightarrow> [(lit ''history'', JArray (map JString xs))]))"

text \<open>
  \<open>save_history\<close>: the \<^verbatim>\<open>mkdir\<close> call stands before the \<^verbatim>\<open>try\<close>, so its exception leaves the
  function; the \<^verbatim>\<open>except OSError\<close> clause covers opening and writing the file only. A write
  that fails after the file was opened leaves the file in the state the world names.
\<close>

definition save_history :: "world \<Rightarrow> hist \<Rightarrow> (exn + unit) \<times> world" where
  "save_history w h =
     (case mkdir_raises w of
        Some e \<Rightarrow> (Inl e, w)
      | None \<Rightarrow>
          (case open_raises w of
             Some e \<Rightarrow> if catches [OSError] e then (Inr (), w) else (Inl e, w)
           | None \<Rightarrow>
               (case dump_raises w of
                  Some (e, left) \<Rightarrow>
                    if catches [OSError] e then (Inr (), w\<lparr>history_file := left\<rparr>)
                    else (Inl e, w\<lparr>history_file := left\<rparr>)
                | None \<Rightarrow> (Inr (), w\<lparr>history_file := Parsed (json_of_hist h)\<rparr>))))"


section \<open>Choosing the shell\<close>

definition environ_get :: "world \<Rightarrow> str \<Rightarrow> str option" where
  "environ_get w k = map_of (environ w) k"

definition path_exists :: "world \<Rightarrow> str \<Rightarrow> exn + bool" where
  \<comment> \<open>\<^verbatim>\<open>Path(p).exists()\<close>\<close>
  "path_exists w p =
     (case map_of (exists_raises w) p of
        Some e \<Rightarrow> Inl e
      | None \<Rightarrow> Inr (p \<in> set (existing w)))"

definition candidates :: "str list" where
  "candidates =
     [lit ''/usr/bin/zsh'', lit ''/usr/bin/fish'', lit ''/usr/bin/bash'', lit ''/bin/bash'',
      lit ''/bin/zsh'', lit ''/bin/fish'', lit ''/bin/sh'']"

fun probe :: "world \<Rightarrow> str list \<Rightarrow> exn + str" where
  \<comment> \<open>the \<^verbatim>\<open>for\<close> loop over the candidates and the \<^verbatim>\<open>return "/bin/sh"\<close> after it\<close>
  "probe w [] = Inr (lit ''/bin/sh'')"
| "probe w (candidate # rest) =
     (case path_exists w candidate of
        Inl e \<Rightarrow> Inl e
      | Inr found \<Rightarrow> if found then Inr candidate else probe w rest)"

text \<open>
  \<open>detect_shell\<close>: no \<^verbatim>\<open>try\<close> stands around the tests for a path, so an exception of
  \<^verbatim>\<open>Path(p).exists()\<close> leaves the function.
\<close>

definition detect_shell :: "world \<Rightarrow> exn + str" where
  "detect_shell w =
     (let env_shell =
            (case environ_get w (lit ''TERMINAL_BUDDY_SHELL'') of
               None \<Rightarrow> environ_get w (lit ''SHELL'')
             | Some s \<Rightarrow> if s \<noteq> [] then Some s else environ_get w (lit ''SHELL''))
      in case env_shell of
           None \<Rightarrow> probe w candidates
         | Some s \<Rightarrow>
             if s = [] then probe w candidates
             else
               (case path_exists w s of
                  Inl e \<Rightarrow> Inl e
                | Inr found \<Rightarrow> if found then Inr s else probe w candidates))"


section \<open>Decoding the command\<close>

text \<open>
  \<^verbatim>\<open>base64.b64decode(s)\<close> for a \<^verbatim>\<open>str\<close> argument, with \<^verbatim>\<open>validate\<close> left at False. The text is
  encoded as ASCII first (\<^verbatim>\<open>ValueError\<close> when it has another code point) and handed to
  \<^verbatim>\<open>binascii.a2b_base64\<close>, whose loop (that of CPython 3.12) is \<open>a2b_loop\<close>: characters
  outside the alphabet are passed over, a complete run of padding ends the input, and data
  that stops inside a group of four raises \<^verbatim>\<open>binascii.Error\<close>. \<open>decimal\<close> prints the number
  in the message of that error.
\<close>

fun decimal :: "nat \<Rightarrow> str" where
  "decimal n = (if n < 10 then [48 + n] else decimal (n div 10) @ [48 + n mod 10])"

declare decimal.simps [simp del]

definition b64_value :: "nat \<Rightarrow> nat option" where
  "b64_value c =
     (if 65 \<le> c \<and> c \<le> 90 then Some (c - 65)
      else if 97 \<le> c \<and> c \<le> 122 then Some (c - 71)
      else if 48 \<le> c \<and> c \<le> 57 then Some (c + 4)
      else if c = 43 then Some 62
      else if c = 47 then Some 63
      else None)"

fun a2b_loop :: "nat \<Rightarrow> nat \<Rightarrow> nat \<Rightarrow> bytes \<Rightarrow> bytes \<Rightarrow> exn + bytes" where
  "a2b_loop quad_pos leftchar pads out [] =
     (if quad_pos = 0 then Inr out
      else if quad_pos = 1 then
        Inl (Exn BinasciiError
               (lit ''Invalid base64-encoded string: number of data characters ('' @
                decimal (length out div 3 * 4 + 1) @
                lit '') cannot be 1 more than a multiple of 4''))
      else Inl (Exn BinasciiError (lit ''Incorrect padding'')))"
| "a2b_loop quad_pos leftchar pads out (c # cs) =
     (if c = 61 then
        (if 2 \<le> quad_pos \<and> 4 \<le> quad_pos + (pads + 1) then Inr out
         else a2b_loop quad_pos leftchar (if 2 \<le> quad_pos then pads + 1 else pads) out cs)
      else
        (case b64_value c of
           None \<Rightarrow> a2b_loop quad_pos leftchar pads out cs
         | Some v \<Rightarrow>
             (if quad_pos = 0 then a2b_loop 1 v 0 out cs
              else if quad_pos = 1 then
                a2b_loop 2 (v mod 16) 0 (out @ [(leftchar * 4 + v div 16) mod 256]) cs
              else if quad_pos = 2 then
                a2b_loop 3 (v mod 4) 0 (out @ [(leftchar * 16 + v div 4) mod 256]) cs
              else a2b_loop 0 0 0 (out @ [(leftchar * 64 + v) mod 256]) cs)))"

definition b64decode :: "str \<Rightarrow> exn + bytes" where
  "b64decode s =
     (if list_all (\<lambda>c. c < 128) s then a2b_loop 0 0 0 [] s
      else Inl (Exn ValueError (lit ''string argument should contain only ASCII characters'')))"

text \<open>
  \<^verbatim>\<open>bytes.decode("utf-8", errors="ignore")\<close>. A well-formed sequence gives its code point. At
  a byte that cannot start a sequence, one byte is passed over; at a byte that cannot
  continue the sequence begun, the bytes of the sequence before it are passed over and
  decoding resumes at that byte; a sequence cut short by the end of the data is dropped.
  Overlong forms, surrogates and code points above U+10FFFF are refused at their second byte.
\<close>

definition is_continuation :: "nat \<Rightarrow> bool" where
  "is_continuation b \<longleftrightarrow> 128 \<le> b \<and> b < 192"

fun utf8_decode_ignore :: "bytes \<Rightarrow> str" where
  "utf8_decode_ignore [] = []"
| "utf8_decode_ignore (ch # s) =
     (if ch < 128 then ch # utf8_decode_ignore s
      else if ch < 194 then utf8_decode_ignore s
      else if ch < 224 then
        (case s of
           [] \<Rightarrow> []
         | ch2 # s2 \<Rightarrow>
             if is_continuation ch2
             then ((ch - 192) * 64 + (ch2 - 128)) # utf8_decode_ignore s2
             else utf8_decode_ignore s)
      else if ch < 240 then
        (case s of
           [] \<Rightarrow> []
         | ch2 # s2 \<Rightarrow>
             if \<not> is_continuation ch2 \<or> (if ch2 < 160 then ch = 224 else ch = 237)
             then utf8_decode_ignore s
             else
               (case s2 of
                  [] \<Rightarrow> []
                | ch3 # s3 \<Rightarrow>
                    if is_continuation ch3
                    then ((ch - 224) * 4096 + (ch2 - 128) * 64 + (ch3 - 128))
                         # utf8_decode_ignore s3
                    else utf8_decode_ignore s2))
      else if ch < 245 then
        (case s of
           [] \<Rightarrow> []
         | ch2 # s2 \<Rightarrow>
             if \<not> is_continuation ch2 \<or> (if ch2 < 144 then ch = 240 else ch = 244)
             then utf8_decode_ignore s
             else
               (case s2 of
                  [] \<Rightarrow> []
                | ch3 # s3 \<Rightarrow>
                    if \<not> is_continuation ch3 then utf8_decode_ignore s2
                    else
                      (case s3 of
                         [] \<Rightarrow> []
                       | ch4 # s4 \<Rightarrow>
                           if is_continuation ch4
                           then ((ch - 240) * 262144 + (ch2 - 128) * 4096 +
                                 (ch3 - 128) * 64 + (ch4 - 128))
                                # utf8_decode_ignore s4
                           else utf8_decode_ignore s3)))
      else utf8_decode_ignore s)"

definition decode_command :: "str option \<Rightarrow> str option \<Rightarrow> exn + str" where
  "decode_command encoded command =
     (let plain = (case command of None \<Rightarrow> [] | Some c \<Rightarrow> c)
      in case encoded of
           None \<Rightarrow> Inr plain
         | Some e \<Rightarrow>
             if e = [] then Inr plain
             else
               (case b64decode e of
                  Inr raw \<Rightarrow> Inr (utf8_decode_ignore raw)
                | Inl ex \<Rightarrow>
                    if catches [ValueError, UnicodeDecodeError] ex then Inr [] else Inl ex))"


section \<open>Running a command\<close>

text \<open>
  \<open>run_command\<close> returns the response and the history dictionary, which the source updates
  in place, or the exception that leaves it; beside the result stands the world after the
  call. The shell is looked for first, before the command is classified.
\<close>

definition run_command ::
  "world \<Rightarrow> str \<Rightarrow> hist \<Rightarrow> int \<Rightarrow> (exn + response \<times> hist) \<times> world" where
  "run_command w command h max_history =
     (case detect_shell w of
        Inl e \<Rightarrow> (Inl e, w)
      | Inr shell_path \<Rightarrow>
     (let response = \<lparr>r_type = lit ''run'', r_command = command, r_stdout = [], r_stderr = [],
                      r_exit_code = 0, r_shell = shell_path, r_history = get_history h,
                      r_last_command = get_last_command h, r_action = None\<rparr>;
          lowered = lower (strip command)
      in if lowered \<in> set [[], lit ''clear'', lit ''cls''] then
           (Inr (if lowered \<noteq> [] then response\<lparr>r_action := Some (lit ''clear'')\<rparr> else response,
                 h), w)
         else if lowered \<in> set [lit ''exit'', lit ''quit''] then
           (Inr (response\<lparr>r_action := Some (lit ''exit'')\<rparr>, h), w)
         else
           (let w1 = w\<lparr>run_calls := run_calls w @ [(command, shell_path)]\<rparr>;
                response =
                  (case subprocess_run w command shell_path of
                     Inr done \<Rightarrow>
                       response\<lparr>r_stdout := stdout done, r_stderr := stderr done,
                                r_exit_code := returncode done\<rparr>
                   | Inl execution_error \<Rightarrow>
                       response\<lparr>r_stderr := lit ''Execution error: '' @ exn_str execution_error,
                                r_exit_code := - 1\<rparr>);
                h1 = update_history h command max_history
            in case save_history w1 h1 of
                 (Inl e, w2) \<Rightarrow> (Inl e, w2)
               | (Inr u, w2) \<Rightarrow>
                   (Inr (response\<lparr>r_history := get_history h1,
                                  r_last_command := get_last_command h1\<rparr>, h1), w2))))"


section \<open>The entry point\<close>

text \<open>
  The namespace that \<^verbatim>\<open>parse_args\<close> returns: the two flags, the two optional texts and the
  history limit, an integer of any sign with the default \<open>MAX_HISTORY_DEFAULT\<close>.
\<close>

definition MAX_HISTORY_DEFAULT :: int where
  "MAX_HISTORY_DEFAULT = 100"

record args =
  arg_run :: bool
  arg_encoded :: "str option"
  arg_command :: "str option"
  arg_history :: bool
  arg_max_history :: int

definition emit :: "world \<Rightarrow> payload \<Rightarrow> (exn + unit) \<times> world" where
  "emit w p =
     (case stdout_raises w p of
        Some e \<Rightarrow> (Inl e, w)
      | None \<Rightarrow> (Inr (), w\<lparr>emitted := emitted w @ [p]\<rparr>))"

definition main :: "world \<Rightarrow> args \<Rightarrow> (exn + int) \<times> world" where
  "main w a =
     (case load_history w of
        Inl e \<Rightarrow> (Inl e, w)
      | Inr h \<Rightarrow>
          if arg_history a then
            (case detect_shell w of
               Inl e \<Rightarrow> (Inl e, w)
             | Inr shell \<Rightarrow>
                 (case emit w (HistoryPayload
                                 \<lparr>hp_type = lit ''history'', hp_history = get_history h,
                                  hp_last_command = get_last_command h, hp_shell = shell\<rparr>) of
                    (Inl e, w1) \<Rightarrow> (Inl e, w1)
                  | (Inr u, w1) \<Rightarrow> (Inr 0, w1)))
          else if \<not> arg_run a then
            (case emit w (ErrorPayload
                            \<lparr>ep_type = lit ''error'',
                             ep_stderr = lit ''No action supplied. Use --run or --history.'',
                             ep_exit_code = 1\<rparr>) of
               (Inl e, w1) \<Rightarrow> (Inl e, w1)
             | (Inr u, w1) \<Rightarrow> (Inr 1, w1))
          else
            (case decode_command (arg_encoded a) (arg_command a) of
               Inl e \<Rightarrow> (Inl e, w)
             | Inr decoded \<Rightarrow>
                 (case run_command w (strip decoded) h (max 1 (arg_max_history a)) of
                    (Inl e, w1) \<Rightarrow> (Inl e, w1)
                  | (Inr (response, h1), w1) \<Rightarrow>
                      (case emit w1 (RunPayload response) of
                         (Inl e, w2) \<Rightarrow> (Inl e, w2)
                       | (Inr u, w2) \<Rightarrow> (Inr 0, w2)))))"

text \<open>
  The status of the process: \<^verbatim>\<open>raise SystemExit(main(sys.argv[1:]))\<close> ends it with the number
  \<open>main\<close> returns; an exception that leaves \<open>main\<close> ends it with status 1, after the
  traceback.
\<close>

definition exit_status :: "exn + int \<Rightarrow> int" where
  "exit_status r = (case r of Inl e \<Rightarrow> 1 | Inr n \<Rightarrow> n)"


section \<open>A machine to run the program on\<close>

text \<open>
  A world with \<^verbatim>\<open>/bin/sh\<close> and \<^verbatim>\<open>/bin/bash\<close>, no history file yet, a history directory that
  can be made and written, commands that print nothing and return 0, and nothing that
  raises.
\<close>

definition plain_world :: world where
  "plain_world =
     \<lparr>environ = [(lit ''SHELL'', lit ''/bin/bash'')],
      existing = [lit ''/bin/sh'', lit ''/bin/bash''],
      exists_raises = [],
      history_file = Missing,
      mkdir_raises = None,
      open_raises = None,
      dump_raises = None,
      subprocess_run = (\<lambda>command shell. Inr \<lparr>stdout = [], stderr = [], returncode = 0\<rparr>),
      render = (\<lambda>v. Inr []),
      stdout_raises = (\<lambda>p. None),
      run_calls = [],
      emitted = []\<rparr>"

text \<open>
  The same world with \<^verbatim>\<open>TERMINAL_BUDDY_SHELL\<close> naming a shell in a directory that may not be
  searched: \<^verbatim>\<open>Path("/private/zsh").exists()\<close> raises the \<^verbatim>\<open>PermissionError\<close> of \<^verbatim>\<open>stat\<close>, as it
  does before Python 3.14.
\<close>

definition locked_world :: world where
  "locked_world =
     plain_world
       \<lparr>environ := [(lit ''TERMINAL_BUDDY_SHELL'', lit ''/private/zsh'')],
        exists_raises := [(lit ''/private/zsh'', Exn OSError (lit ''Permission denied''))]\<rparr>"

definition run_args :: "str \<Rightarrow> args" where
  \<comment> \<open>\<^verbatim>\<open>--run --command c\<close>\<close>
  "run_args c =
     \<lparr>arg_run = True, arg_encoded = None, arg_command = Some c, arg_history = False,
      arg_max_history = MAX_HISTORY_DEFAULT\<rparr>"

definition encoded_args :: "str \<Rightarrow> args" where
  \<comment> \<open>\<^verbatim>\<open>--run --encoded e\<close>\<close>
  "encoded_args e =
     \<lparr>arg_run = True, arg_encoded = Some e, arg_command = None, arg_history = False,
      arg_max_history = MAX_HISTORY_DEFAULT\<rparr>"

definition both_args :: args where
  \<comment> \<open>\<^verbatim>\<open>--history --run --command ls\<close>\<close>
  "both_args =
     \<lparr>arg_run = True, arg_encoded = None, arg_command = Some (lit ''ls''), arg_history = True,
      arg_max_history = MAX_HISTORY_DEFAULT\<rparr>"


section \<open>White space and the example machines\<close>

lemma dropWhile_rev_stable:
  assumes "t = [] \<or> \<not> P (hd t)"
  shows "dropWhile P (rev (dropWhile P (rev t))) = rev (dropWhile P (rev t))"
proof (cases t)
  case Nil
  then show ?thesis by simp
next
  case (Cons x xs)
  with assms have nx: "\<not> P x"
    by simp
  have "\<exists>ys. dropWhile P (rev xs @ [x]) = ys @ [x]"
    using nx by (simp add: dropWhile_append)
  then obtain ys where "dropWhile P (rev t) = ys @ [x]"
    using Cons by auto
  then show ?thesis
    using nx by simp
qed

lemma strip_idem: "strip (strip s) = strip s"
proof -
  have "dropWhile isspace s = [] \<or> \<not> isspace (hd (dropWhile isspace s))"
    using hd_dropWhile [of isspace s] by blast
  then have "dropWhile isspace (rev (dropWhile isspace (rev (dropWhile isspace s))))
             = rev (dropWhile isspace (rev (dropWhile isspace s)))"
    by (rule dropWhile_rev_stable)
  then show ?thesis
    by (simp add: strip_def)
qed

lemma strip_padded_ls: "strip (lit ''  ls  '') = lit ''ls''"
  by (simp add: strip_def isspace_def lit_def)

lemma strip_ls: "strip (lit ''ls'') = lit ''ls''"
  by (simp add: strip_def isspace_def lit_def)

lemma ls_is_no_pseudo_command:
  "lower (lit ''ls'') \<notin> {[], lit ''clear'', lit ''cls'', lit ''exit'', lit ''quit''}"
  by (simp add: lower_def lower_cp_def lit_def)

text \<open>The search for a shell reads the environment and the tests for a path, nothing else.\<close>

lemma path_exists_cong:
  assumes "existing w' = existing w" and "exists_raises w' = exists_raises w"
  shows "path_exists w' p = path_exists w p"
  using assms by (simp add: path_exists_def cong: option.case_cong)

lemma probe_cong:
  assumes "existing w' = existing w" and "exists_raises w' = exists_raises w"
  shows "probe w' cs = probe w cs"
  by (induction cs) (simp_all add: path_exists_cong [OF assms] cong: sum.case_cong if_cong)

lemma detect_shell_cong:
  assumes "environ w' = environ w" and "existing w' = existing w"
    and "exists_raises w' = exists_raises w"
  shows "detect_shell w' = detect_shell w"
proof -
  have "environ_get w' k = environ_get w k" for k
    using assms(1) by (simp add: environ_get_def)
  then show ?thesis
    by (simp add: detect_shell_def probe_cong [OF assms(2,3)] path_exists_cong [OF assms(2,3)]
        cong: option.case_cong sum.case_cong if_cong)
qed

lemma plain_shell: "detect_shell plain_world = Inr (lit ''/bin/bash'')"
  by (simp add: detect_shell_def plain_world_def environ_get_def path_exists_def lit_def)

lemma plain_shell_mkdir: "detect_shell (plain_world\<lparr>mkdir_raises := m\<rparr>) = Inr (lit ''/bin/bash'')"
  using detect_shell_cong [of "plain_world\<lparr>mkdir_raises := m\<rparr>" plain_world]
  by (simp add: plain_shell)

lemma locked_shell: "detect_shell locked_world = Inl (Exn OSError (lit ''Permission denied''))"
  by (simp add: detect_shell_def locked_world_def plain_world_def environ_get_def path_exists_def
      lit_def)

lemma plain_load: "load_history plain_world = Inr DEFAULT_HISTORY"
  by (simp add: load_history_def plain_world_def)

lemma plain_save:
  "save_history (plain_world\<lparr>run_calls := calls\<rparr>) h
     = (Inr (), plain_world\<lparr>run_calls := calls, history_file := Parsed (json_of_hist h)\<rparr>)"
  by (simp add: save_history_def plain_world_def)

lemma decode_padded_ls: "decode_command (Some (lit ''ICBscyAg'')) None = Inr (lit ''  ls  '')"
  by (simp add: decode_command_def b64decode_def b64_value_def lit_def)

lemma save_history_run_calls: "save_history w h = (r, w') \<Longrightarrow> run_calls w' = run_calls w"
  by (auto simp add: save_history_def split: option.splits if_splits prod.splits)

lemma emit_frame:
  assumes "emit w p = (r, w')"
  shows "run_calls w' = run_calls w \<and> history_file w' = history_file w"
  using assms by (auto simp add: emit_def split: option.splits)

lemma str_all_strings: "str_all w (map JString xs) = Inr xs"
  by (induction xs) (simp_all add: py_str_def)


section \<open>Updating the history\<close>

lemma slice_to_nonneg: "0 \<le> k \<Longrightarrow> slice_to xs k = take (nat k) xs"
  by (simp add: slice_to_def)

lemma get_history_update:
  "get_history (update_history h c limit) =
     slice_to (c # filter (\<lambda>entry. entry \<noteq> c) (get_history h)) limit"
  by (simp add: update_history_def get_history_def Let_def)

lemma update_history_keeps_inv:
  assumes "1 \<le> limit" and "hist_inv limit h"
  shows "hist_inv limit (update_history h c limit)"
proof -
  from assms(2) have d: "distinct (get_history h)"
    by (simp add: hist_inv_def)
  have "distinct (c # filter (\<lambda>entry. entry \<noteq> c) (get_history h))"
    using d by simp
  then have "distinct (take (nat limit) (c # filter (\<lambda>entry. entry \<noteq> c) (get_history h)))"
    by (rule distinct_take)
  moreover have
    "int (length (take (nat limit) (c # filter (\<lambda>entry. entry \<noteq> c) (get_history h)))) \<le> limit"
    using assms(1) by simp
  ultimately show ?thesis
    using assms(1) by (simp add: hist_inv_def get_history_update slice_to_nonneg)
qed

text \<open>
  C5, as amended. For every record, command and limit that is not negative,
  \<open>update_history\<close> drops every entry equal to the command (equality of the code point
  sequences, so case matters), puts the command in front, keeps the first \<open>limit\<close> entries
  and sets \<open>last_command\<close> to the command. From the empty record, the commands \<^verbatim>\<open>ls\<close>,
  \<^verbatim>\<open>pwd\<close>, \<^verbatim>\<open>ls\<close> with limit 3 leave the history \<^verbatim>\<open>["ls", "pwd"]\<close> and \<^verbatim>\<open>ls\<close> as last command.
\<close>

theorem update_history_spec:
  assumes "0 \<le> limit"
  shows "update_history h command limit =
           \<lparr>history = Some (take (nat limit)
                             (command # filter (\<lambda>entry. entry \<noteq> command) (get_history h))),
            last_command = Some command\<rparr>
         \<and> update_history
             (update_history (update_history DEFAULT_HISTORY (lit ''ls'') 3) (lit ''pwd'') 3)
             (lit ''ls'') 3
           = \<lparr>history = Some [lit ''ls'', lit ''pwd''], last_command = Some (lit ''ls'')\<rparr>"
proof
  show "update_history h command limit =
           \<lparr>history = Some (take (nat limit)
                             (command # filter (\<lambda>entry. entry \<noteq> command) (get_history h))),
            last_command = Some command\<rparr>"
    using assms by (simp add: update_history_def Let_def slice_to_nonneg)
  show "update_history
             (update_history (update_history DEFAULT_HISTORY (lit ''ls'') 3) (lit ''pwd'') 3)
             (lit ''ls'') 3
           = \<lparr>history = Some [lit ''ls'', lit ''pwd''], last_command = Some (lit ''ls'')\<rparr>"
    by (simp add: update_history_def Let_def slice_to_def get_history_def DEFAULT_HISTORY_def
        lit_def)
qed

theorem update_history_spec_witness:
  "(0::int) \<le> 2 \<and>
   update_history \<lparr>history = Some [lit ''a'', lit ''b'', lit ''c''], last_command = Some (lit ''a'')\<rparr>
     (lit ''b'') 2
   = \<lparr>history = Some [lit ''b'', lit ''a''], last_command = Some (lit ''b'')\<rparr>"
  using update_history_spec [of 2
      "\<lparr>history = Some [lit ''a'', lit ''b'', lit ''c''], last_command = Some (lit ''a'')\<rparr>"
      "lit ''b''"]
  by (simp add: get_history_def lit_def)

text \<open>
  The claim as it was written, for every limit, fails for a negative one: with limit \<open>-1\<close>
  the slice drops the last entry only, so two entries remain where the first \<open>-1\<close> entries
  of a list are none.
\<close>

theorem update_history_negative_limit_counterexample:
  "get_history (update_history \<lparr>history = Some [lit ''a'', lit ''b''], last_command = Some (lit ''a'')\<rparr>
                  (lit ''c'') (- 1))
     = [lit ''c'', lit ''a'']
   \<and> get_history (update_history \<lparr>history = Some [lit ''a'', lit ''b''], last_command = Some (lit ''a'')\<rparr>
                  (lit ''c'') (- 1))
     \<noteq> take (nat (- 1)) (lit ''c'' # filter (\<lambda>entry. entry \<noteq> lit ''c'') [lit ''a'', lit ''b''])"
  by (simp add: update_history_def Let_def slice_to_def get_history_def lit_def)

text \<open>
  C6. For a fixed limit of at least 1 and a record whose history is within the limit and
  free of duplicates, the record reached by any finite sequence of \<open>update_history\<close> calls
  is within the limit and free of duplicates again.
\<close>

theorem update_history_invariant:
  assumes "1 \<le> limit" and "hist_inv limit h"
  shows "hist_inv limit (foldl (\<lambda>h' c. update_history h' c limit) h cmds)"
  using assms(2)
proof (induction cmds arbitrary: h)
  case Nil
  then show ?case by simp
next
  case (Cons c cmds)
  from assms(1) Cons.prems have "hist_inv limit (update_history h c limit)"
    by (rule update_history_keeps_inv)
  then have "hist_inv limit (foldl (\<lambda>h' c. update_history h' c limit) (update_history h c limit) cmds)"
    by (rule Cons.IH)
  then show ?case by simp
qed

theorem update_history_invariant_witness:
  "(1::int) \<le> 2
   \<and> hist_inv 2 \<lparr>history = Some [lit ''a'', lit ''b''], last_command = Some (lit ''a'')\<rparr>
   \<and> hist_inv 2 (foldl (\<lambda>h' c. update_history h' c 2)
        \<lparr>history = Some [lit ''a'', lit ''b''], last_command = Some (lit ''a'')\<rparr>
        [lit ''c'', lit ''a'', lit ''c''])"
proof -
  have i: "hist_inv 2 \<lparr>history = Some [lit ''a'', lit ''b''], last_command = Some (lit ''a'')\<rparr>"
    by (simp add: hist_inv_def get_history_def lit_def)
  have l: "(1::int) \<le> 2"
    by simp
  from update_history_invariant [OF l i, of "[lit ''c'', lit ''a'', lit ''c'']"] i l
  show ?thesis by simp
qed


section \<open>Loading the history\<close>

text \<open>
  C3, as amended. When \<^verbatim>\<open>HISTORY_FILE.exists()\<close> answers False, when the file exists and
  opening or reading it raises \<^verbatim>\<open>OSError\<close>, when \<^verbatim>\<open>json.load\<close> raises \<^verbatim>\<open>json.JSONDecodeError\<close>, or
  when \<^verbatim>\<open>json.load\<close> returns a value that is not a dictionary, \<open>load_history\<close> returns the
  default record and raises nothing. When \<^verbatim>\<open>json.load\<close> returns a dictionary whose
  \<^verbatim>\<open>history\<close> field is not a list, \<open>load_history\<close> returns a record with the empty history;
  its last command is the empty text when the \<^verbatim>\<open>last_command\<close> field is missing or falsy,
  and otherwise what \<^verbatim>\<open>str()\<close> returns for that field, the field itself when it is a string.
\<close>

theorem load_history_degrades:
  "((history_file w = Missing
      \<or> (\<exists>e. history_file w = ReadRaises e \<and> (exn_cls e = OSError \<or> exn_cls e = JSONDecodeError))
      \<or> (\<exists>data. history_file w = Parsed data \<and> \<not> is_dict data))
     \<longrightarrow> load_history w = Inr DEFAULT_HISTORY)
   \<and> (\<forall>data last_text.
         history_file w = Parsed data \<and> is_dict data
         \<and> \<not> is_list (dict_get data (lit ''history'') (JArray []))
         \<and> (if truthy (dict_get data (lit ''last_command'') (JString []))
             then py_str w (dict_get data (lit ''last_command'') (JString [])) = Inr last_text
             else last_text = [])
        \<longrightarrow> load_history w = Inr \<lparr>history = Some [], last_command = Some last_text\<rparr>)"
proof (intro conjI impI allI)
  assume "history_file w = Missing
      \<or> (\<exists>e. history_file w = ReadRaises e \<and> (exn_cls e = OSError \<or> exn_cls e = JSONDecodeError))
      \<or> (\<exists>data. history_file w = Parsed data \<and> \<not> is_dict data)"
  then show "load_history w = Inr DEFAULT_HISTORY"
    by (auto simp add: load_history_def catches_def issubclass_def)
next
  fix data last_text
  assume a: "history_file w = Parsed data \<and> is_dict data
         \<and> \<not> is_list (dict_get data (lit ''history'') (JArray []))
         \<and> (if truthy (dict_get data (lit ''last_command'') (JString []))
             then py_str w (dict_get data (lit ''last_command'') (JString [])) = Inr last_text
             else last_text = [])"
  show "load_history w = Inr \<lparr>history = Some [], last_command = Some last_text\<rparr>"
  proof (cases "truthy (dict_get data (lit ''last_command'') (JString []))")
    case True
    with a show ?thesis
      by (simp add: load_history_def Let_def)
  next
    case False
    with a show ?thesis
      by (simp add: load_history_def Let_def)
  qed
qed

theorem load_history_degrades_witness:
  "load_history (plain_world\<lparr>history_file := Missing\<rparr>) = Inr DEFAULT_HISTORY
   \<and> load_history (plain_world\<lparr>history_file := ReadRaises (Exn OSError (lit ''Permission denied''))\<rparr>)
       = Inr DEFAULT_HISTORY
   \<and> load_history (plain_world\<lparr>history_file := ReadRaises (Exn JSONDecodeError (lit ''Expecting value''))\<rparr>)
       = Inr DEFAULT_HISTORY
   \<and> load_history (plain_world\<lparr>history_file := Parsed (JArray [JString (lit ''ls'')])\<rparr>)
       = Inr DEFAULT_HISTORY
   \<and> load_history (plain_world\<lparr>history_file :=
         Parsed (JObject [(lit ''history'', JNumber (lit ''5'') True),
                          (lit ''last_command'', JString (lit ''pwd''))])\<rparr>)
       = Inr \<lparr>history = Some [], last_command = Some (lit ''pwd'')\<rparr>"
  using
    load_history_degrades [of "plain_world\<lparr>history_file := Missing\<rparr>"]
    load_history_degrades
      [of "plain_world\<lparr>history_file := ReadRaises (Exn OSError (lit ''Permission denied''))\<rparr>"]
    load_history_degrades
      [of "plain_world\<lparr>history_file := ReadRaises (Exn JSONDecodeError (lit ''Expecting value''))\<rparr>"]
    load_history_degrades
      [of "plain_world\<lparr>history_file := Parsed (JArray [JString (lit ''ls'')])\<rparr>"]
    load_history_degrades
      [of "plain_world\<lparr>history_file :=
         Parsed (JObject [(lit ''history'', JNumber (lit ''5'') True),
                          (lit ''last_command'', JString (lit ''pwd''))])\<rparr>",
       THEN conjunct2, rule_format,
       of "JObject [(lit ''history'', JNumber (lit ''5'') True),
                    (lit ''last_command'', JString (lit ''pwd''))]" "lit ''pwd''"]
  by (simp add: py_str_def lit_def)

text \<open>
  The claim as it was written fails for a \<^verbatim>\<open>history\<close> field that is not a list: from the
  file \<^verbatim>\<open>{"history": "x", "last_command": "ls"}\<close> the record returned has the last command
  \<^verbatim>\<open>ls\<close>, so it is not the default record.
\<close>

theorem load_history_non_list_counterexample:
  "load_history (plain_world\<lparr>history_file :=
         Parsed (JObject [(lit ''history'', JString (lit ''x'')),
                          (lit ''last_command'', JString (lit ''ls''))])\<rparr>)
     = Inr \<lparr>history = Some [], last_command = Some (lit ''ls'')\<rparr>
   \<and> load_history (plain_world\<lparr>history_file :=
         Parsed (JObject [(lit ''history'', JString (lit ''x'')),
                          (lit ''last_command'', JString (lit ''ls''))])\<rparr>)
     \<noteq> Inr DEFAULT_HISTORY"
  by (simp add: load_history_def Let_def py_str_def DEFAULT_HISTORY_def lit_def)

text \<open>
  The other states of the file are none of the cases above. A file whose bytes are not
  UTF-8 makes the read raise \<^verbatim>\<open>UnicodeDecodeError\<close>, which is neither a
  \<^verbatim>\<open>json.JSONDecodeError\<close> nor an \<^verbatim>\<open>OSError\<close> and leaves \<open>load_history\<close>; so do the
  \<^verbatim>\<open>RecursionError\<close> and the \<^verbatim>\<open>ValueError\<close> of the parser, and so does any exception of the
  test for the file, which no \<^verbatim>\<open>try\<close> covers.
\<close>

lemma load_history_not_utf8:
  "load_history (w\<lparr>history_file := ReadRaises (Exn UnicodeDecodeError m)\<rparr>)
     = Inl (Exn UnicodeDecodeError m)"
  by (simp add: load_history_def catches_def issubclass_def)

lemma load_history_parser_raises:
  assumes "history_file w = ReadRaises e"
    and "exn_cls e = RecursionError \<or> exn_cls e = ValueError \<or> exn_cls e = UnicodeDecodeError"
  shows "load_history w = Inl e"
  using assms by (auto simp add: load_history_def catches_def issubclass_def)

lemma load_history_exists_raises:
  assumes "history_file w = ExistsRaises e"
  shows "load_history w = Inl e"
  using assms by (simp add: load_history_def)


section \<open>Saving the history\<close>

text \<open>
  An \<^verbatim>\<open>OSError\<close> of opening or writing the file is swallowed: \<open>save_history\<close> returns. After a
  failed \<^verbatim>\<open>open\<close> the world is as before; after a failed write the file is in the state the
  failure left it in, the history it held being gone.
\<close>

lemma save_history_swallows_write_failure:
  assumes "mkdir_raises w = None" and "exn_cls e = OSError"
  shows "(open_raises w = Some e \<longrightarrow> save_history w h = (Inr (), w))
       \<and> (open_raises w = None \<and> dump_raises w = Some (e, left) \<longrightarrow>
            save_history w h = (Inr (), w\<lparr>history_file := left\<rparr>))"
  using assms by (simp add: save_history_def catches_def issubclass_def)

text \<open>What a successful save writes is what the next load returns.\<close>

lemma load_after_save:
  assumes "mkdir_raises w = None" and "open_raises w = None" and "dump_raises w = None"
  shows "load_history (snd (save_history w \<lparr>history = Some xs, last_command = Some c\<rparr>))
           = Inr \<lparr>history = Some xs, last_command = Some c\<rparr>"
proof -
  have k: "lit ''history'' \<noteq> lit ''last_command''"
    by (simp add: lit_def)
  show ?thesis
    using assms k
    by (simp add: save_history_def load_history_def json_of_hist_def Let_def py_str_def
        str_all_strings)
qed

text \<open>
  C2. The claim asks that \<open>save_history\<close> returns normally whatever fails, the making of the
  storage directory included. With a directory that cannot be made, \<open>save_history\<close> is left
  by the \<^verbatim>\<open>OSError\<close> of \<^verbatim>\<open>mkdir\<close>, and so is \<open>run_command\<close>, which by then has run the command:
  the caller gets the exception, not the execution result.
\<close>

theorem save_history_mkdir_failure:
  "save_history (plain_world\<lparr>mkdir_raises := Some (Exn OSError (lit ''Permission denied''))\<rparr>)
      \<lparr>history = Some [lit ''ls''], last_command = Some (lit ''ls'')\<rparr>
     = (Inl (Exn OSError (lit ''Permission denied'')),
        plain_world\<lparr>mkdir_raises := Some (Exn OSError (lit ''Permission denied''))\<rparr>)
   \<and> fst (run_command
            (plain_world\<lparr>mkdir_raises := Some (Exn OSError (lit ''Permission denied''))\<rparr>)
            (lit ''ls'') DEFAULT_HISTORY 100)
     = Inl (Exn OSError (lit ''Permission denied''))"
proof -
  have "lower (strip (lit ''ls'')) \<notin> set [[], lit ''clear'', lit ''cls'']"
    and "lower (strip (lit ''ls'')) \<notin> set [lit ''exit'', lit ''quit'']"
    using ls_is_no_pseudo_command by (simp_all add: strip_ls)
  then show ?thesis
    by (simp add: run_command_def plain_shell_mkdir save_history_def Let_def)
qed


section \<open>Decoding the command\<close>

text \<open>Bytes below 128 decode to themselves.\<close>

lemma utf8_decode_ignore_ascii:
  "list_all (\<lambda>b. b < 128) bs \<Longrightarrow> utf8_decode_ignore bs = bs"
  by (induction bs) simp_all

text \<open>Every exception of \<open>b64decode\<close> is one that \<open>decode_command\<close> catches.\<close>

lemma a2b_loop_raises:
  "a2b_loop quad_pos leftchar pads out cs = Inl e \<Longrightarrow> exn_cls e = BinasciiError"
proof (induction cs arbitrary: quad_pos leftchar pads out)
  case Nil
  then show ?case by (auto split: if_splits)
next
  case (Cons c cs)
  show ?case
  proof (cases "c = 61")
    case True
    with Cons.prems Cons.IH show ?thesis
      by (auto split: if_splits)
  next
    case False
    with Cons.prems Cons.IH show ?thesis
      by (cases "b64_value c") (auto split: if_splits)
  qed
qed

lemma b64decode_raises:
  assumes "b64decode s = Inl e"
  shows "catches [ValueError, UnicodeDecodeError] e"
proof (cases "list_all (\<lambda>c. c < 128) s")
  case True
  with assms have "a2b_loop 0 0 0 [] s = Inl e"
    by (simp add: b64decode_def)
  then have "exn_cls e = BinasciiError"
    by (rule a2b_loop_raises)
  then show ?thesis
    by (simp add: catches_def issubclass_def)
next
  case False
  with assms have "exn_cls e = ValueError"
    by (auto simp add: b64decode_def)
  then show ?thesis
    by (simp add: catches_def issubclass_def)
qed

text \<open>
  C9. \<open>decode_command\<close> never raises. With an encoded payload that is present and not
  empty, the result is the payload decoded from base64 and read as UTF-8 with the
  undecodable bytes ignored, or the empty text when the base64 decoding fails; otherwise it
  is the raw command, or the empty text when there is none.
\<close>

theorem decode_command_spec:
  "decode_command encoded command =
     Inr (case encoded of
            None \<Rightarrow> (case command of None \<Rightarrow> [] | Some c \<Rightarrow> c)
          | Some e \<Rightarrow>
              if e = [] then (case command of None \<Rightarrow> [] | Some c \<Rightarrow> c)
              else (case b64decode e of
                      Inr raw \<Rightarrow> utf8_decode_ignore raw
                    | Inl ex \<Rightarrow> []))"
  by (auto simp add: decode_command_def Let_def split: option.splits sum.splits
      dest: b64decode_raises)

theorem decode_command_spec_witness:
  "decode_command (Some (lit ''ICBscyAg'')) (Some (lit ''pwd'')) = Inr (lit ''  ls  '')
   \<and> decode_command (Some (lit ''/2xz'')) None = Inr (lit ''ls'')
   \<and> decode_command (Some (lit ''bHM'')) (Some (lit ''pwd'')) = Inr []
   \<and> decode_command (Some []) (Some (lit ''pwd'')) = Inr (lit ''pwd'')
   \<and> decode_command None None = Inr []"
  by (simp add: decode_command_spec b64decode_def b64_value_def lit_def)


section \<open>Running a command\<close>

text \<open>
  C7, as amended. When the stripped, lowered command is empty or one of \<^verbatim>\<open>clear\<close>, \<^verbatim>\<open>cls\<close>,
  \<^verbatim>\<open>exit\<close>, \<^verbatim>\<open>quit\<close>, \<open>run_command\<close> leaves the world as it was: no call of \<^verbatim>\<open>subprocess.run\<close>,
  no change of the history file; and whenever the search for the shell raises nothing, it
  returns a response with exit code 0 and the history record it was given. For every other
  command the shell that was found is called with it once. The world changes on no run
  without such a call, so the history is updated and saved on that branch only.
\<close>

theorem run_command_pseudo_frame:
  "(lower (strip command) \<in> {[], lit ''clear'', lit ''cls'', lit ''exit'', lit ''quit''} \<longrightarrow>
      snd (run_command w command h n) = w
      \<and> (\<forall>shell. detect_shell w = Inr shell \<longrightarrow>
           (\<exists>resp. run_command w command h n = (Inr (resp, h), w) \<and> r_exit_code resp = 0)))
   \<and> (lower (strip command) \<notin> {[], lit ''clear'', lit ''cls'', lit ''exit'', lit ''quit''} \<longrightarrow>
      (\<forall>shell. detect_shell w = Inr shell \<longrightarrow>
         run_calls (snd (run_command w command h n)) = run_calls w @ [(command, shell)]))
   \<and> (run_calls (snd (run_command w command h n)) = run_calls w \<longrightarrow>
      snd (run_command w command h n) = w)"
proof (intro conjI impI allI)
  assume p: "lower (strip command) \<in> {[], lit ''clear'', lit ''cls'', lit ''exit'', lit ''quit''}"
  then show "snd (run_command w command h n) = w"
    by (cases "detect_shell w") (auto simp add: run_command_def Let_def)
  fix shell
  assume "detect_shell w = Inr shell"
  with p show "\<exists>resp. run_command w command h n = (Inr (resp, h), w) \<and> r_exit_code resp = 0"
    by (auto simp add: run_command_def Let_def)
next
  fix shell
  assume "lower (strip command) \<notin> {[], lit ''clear'', lit ''cls'', lit ''exit'', lit ''quit''}"
    and "detect_shell w = Inr shell"
  then show "run_calls (snd (run_command w command h n)) = run_calls w @ [(command, shell)]"
    by (auto simp add: run_command_def Let_def split: prod.splits sum.splits
        dest: save_history_run_calls)
next
  assume same: "run_calls (snd (run_command w command h n)) = run_calls w"
  show "snd (run_command w command h n) = w"
  proof (cases "detect_shell w")
    case (Inl e)
    then show ?thesis
      by (simp add: run_command_def)
  next
    case (Inr shell)
    show ?thesis
    proof (cases "lower (strip command) \<in> {[], lit ''clear'', lit ''cls'', lit ''exit'', lit ''quit''}")
      case True
      with Inr show ?thesis
        by (auto simp add: run_command_def Let_def)
    next
      case False
      with Inr have "run_calls (snd (run_command w command h n)) = run_calls w @ [(command, shell)]"
        by (auto simp add: run_command_def Let_def split: prod.splits sum.splits
            dest: save_history_run_calls)
      with same show ?thesis
        by simp
    qed
  qed
qed

theorem run_command_pseudo_frame_witness:
  "lower (strip (lit '' QUIT '')) \<in> {[], lit ''clear'', lit ''cls'', lit ''exit'', lit ''quit''}
   \<and> detect_shell plain_world = Inr (lit ''/bin/bash'')
   \<and> (\<exists>resp. run_command plain_world (lit '' QUIT '') DEFAULT_HISTORY 100
               = (Inr (resp, DEFAULT_HISTORY), plain_world) \<and> r_exit_code resp = 0)
   \<and> lower (strip (lit ''ls'')) \<notin> {[], lit ''clear'', lit ''cls'', lit ''exit'', lit ''quit''}
   \<and> run_calls (snd (run_command plain_world (lit ''ls'') DEFAULT_HISTORY 100))
       = run_calls plain_world @ [(lit ''ls'', lit ''/bin/bash'')]
   \<and> snd (run_command locked_world (lit ''ls'') DEFAULT_HISTORY 100) = locked_world"
proof -
  have q: "lower (strip (lit '' QUIT '')) \<in> {[], lit ''clear'', lit ''cls'', lit ''exit'', lit ''quit''}"
    by (simp add: lower_def strip_def lit_def isspace_def lower_cp_def)
  have l: "lower (strip (lit ''ls'')) \<notin> {[], lit ''clear'', lit ''cls'', lit ''exit'', lit ''quit''}"
    using ls_is_no_pseudo_command by (simp add: strip_ls)
  have k: "run_calls (snd (run_command locked_world (lit ''ls'') DEFAULT_HISTORY 100))
           = run_calls locked_world"
    by (simp add: run_command_def locked_shell)
  have 1: "\<exists>resp. run_command plain_world (lit '' QUIT '') DEFAULT_HISTORY 100
               = (Inr (resp, DEFAULT_HISTORY), plain_world) \<and> r_exit_code resp = 0"
    using run_command_pseudo_frame
      [of "lit '' QUIT ''" plain_world DEFAULT_HISTORY 100, THEN conjunct1, rule_format, OF q,
       THEN conjunct2, rule_format, OF plain_shell]
    by blast
  have 2: "run_calls (snd (run_command plain_world (lit ''ls'') DEFAULT_HISTORY 100))
       = run_calls plain_world @ [(lit ''ls'', lit ''/bin/bash'')]"
    using run_command_pseudo_frame
      [of "lit ''ls''" plain_world DEFAULT_HISTORY 100, THEN conjunct2, THEN conjunct1,
       rule_format, OF l plain_shell]
    by simp
  have 3: "snd (run_command locked_world (lit ''ls'') DEFAULT_HISTORY 100) = locked_world"
    using run_command_pseudo_frame
      [of "lit ''ls''" locked_world DEFAULT_HISTORY 100, THEN conjunct2, THEN conjunct2,
       rule_format, OF k]
    by simp
  from q plain_shell 1 l 2 3 show ?thesis
    by (intro conjI)
qed

text \<open>
  The claim as it was written has every such request return a result with exit code 0.
  \<open>run_command\<close> looks for the shell before it classifies the command, and with
  \<^verbatim>\<open>TERMINAL_BUDDY_SHELL\<close> naming a path whose test raises, the request \<^verbatim>\<open>exit\<close> is left by
  that \<^verbatim>\<open>OSError\<close> and returns no result.
\<close>

theorem run_command_pseudo_no_result_counterexample:
  "lower (strip (lit ''exit'')) \<in> {[], lit ''clear'', lit ''cls'', lit ''exit'', lit ''quit''}
   \<and> run_command locked_world (lit ''exit'') DEFAULT_HISTORY 100
       = (Inl (Exn OSError (lit ''Permission denied'')), locked_world)"
  by (simp add: run_command_def locked_shell lower_def strip_def lit_def isspace_def lower_cp_def)

text \<open>
  C8, as amended. Whenever the search for the shell raises nothing: when the stripped,
  lowered command is \<^verbatim>\<open>clear\<close> or \<^verbatim>\<open>cls\<close> the response carries the action \<^verbatim>\<open>clear\<close>; when it is
  empty the response has no action; when it is \<^verbatim>\<open>exit\<close> or \<^verbatim>\<open>quit\<close> the response carries the
  action \<^verbatim>\<open>exit\<close>; in these cases the exit code is 0 and the captured output and error text
  are empty. The response to any other command has no action.
\<close>

theorem run_command_action:
  "(lower (strip command) \<in> {lit ''clear'', lit ''cls''} \<and> detect_shell w = Inr shell \<longrightarrow>
      (\<exists>resp. run_command w command h n = (Inr (resp, h), w) \<and>
         r_action resp = Some (lit ''clear'') \<and>
         r_exit_code resp = 0 \<and> r_stdout resp = [] \<and> r_stderr resp = []))
   \<and> (lower (strip command) = [] \<and> detect_shell w = Inr shell \<longrightarrow>
      (\<exists>resp. run_command w command h n = (Inr (resp, h), w) \<and>
         r_action resp = None \<and>
         r_exit_code resp = 0 \<and> r_stdout resp = [] \<and> r_stderr resp = []))
   \<and> (lower (strip command) \<in> {lit ''exit'', lit ''quit''} \<and> detect_shell w = Inr shell \<longrightarrow>
      (\<exists>resp. run_command w command h n = (Inr (resp, h), w) \<and>
         r_action resp = Some (lit ''exit'') \<and>
         r_exit_code resp = 0 \<and> r_stdout resp = [] \<and> r_stderr resp = []))
   \<and> (lower (strip command) \<notin> {[], lit ''clear'', lit ''cls'', lit ''exit'', lit ''quit''} \<longrightarrow>
      (\<forall>resp h' w'. run_command w command h n = (Inr (resp, h'), w') \<longrightarrow> r_action resp = None))"
proof (intro conjI impI allI)
  assume "lower (strip command) \<in> {lit ''clear'', lit ''cls''} \<and> detect_shell w = Inr shell"
  then show "\<exists>resp. run_command w command h n = (Inr (resp, h), w) \<and>
         r_action resp = Some (lit ''clear'') \<and>
         r_exit_code resp = 0 \<and> r_stdout resp = [] \<and> r_stderr resp = []"
    by (auto simp add: run_command_def Let_def lit_def)
next
  assume "lower (strip command) = [] \<and> detect_shell w = Inr shell"
  then show "\<exists>resp. run_command w command h n = (Inr (resp, h), w) \<and>
         r_action resp = None \<and>
         r_exit_code resp = 0 \<and> r_stdout resp = [] \<and> r_stderr resp = []"
    by (simp add: run_command_def Let_def)
next
  assume "lower (strip command) \<in> {lit ''exit'', lit ''quit''} \<and> detect_shell w = Inr shell"
  then show "\<exists>resp. run_command w command h n = (Inr (resp, h), w) \<and>
         r_action resp = Some (lit ''exit'') \<and>
         r_exit_code resp = 0 \<and> r_stdout resp = [] \<and> r_stderr resp = []"
    by (auto simp add: run_command_def Let_def lit_def)
next
  fix resp h' w'
  assume "lower (strip command) \<notin> {[], lit ''clear'', lit ''cls'', lit ''exit'', lit ''quit''}"
    and "run_command w command h n = (Inr (resp, h'), w')"
  then show "r_action resp = None"
    by (cases "detect_shell w")
      (auto simp add: run_command_def Let_def split: prod.splits sum.splits)
qed

theorem run_command_action_witness:
  "detect_shell plain_world = Inr (lit ''/bin/bash'')
   \<and> (\<exists>resp. run_command plain_world (lit ''CLS'') DEFAULT_HISTORY 100
             = (Inr (resp, DEFAULT_HISTORY), plain_world)
           \<and> r_action resp = Some (lit ''clear''))
   \<and> (\<exists>resp. run_command plain_world (lit ''  '') DEFAULT_HISTORY 100
             = (Inr (resp, DEFAULT_HISTORY), plain_world)
           \<and> r_action resp = None)
   \<and> (\<exists>resp. run_command plain_world (lit ''Exit'') DEFAULT_HISTORY 100
             = (Inr (resp, DEFAULT_HISTORY), plain_world)
           \<and> r_action resp = Some (lit ''exit''))
   \<and> (\<exists>resp h' w'. run_command plain_world (lit ''ls'') DEFAULT_HISTORY 100 = (Inr (resp, h'), w')
           \<and> r_action resp = None)"
proof -
  have c: "lower (strip (lit ''CLS'')) \<in> {lit ''clear'', lit ''cls''}
           \<and> detect_shell plain_world = Inr (lit ''/bin/bash'')"
    and e: "lower (strip (lit ''  '')) = [] \<and> detect_shell plain_world = Inr (lit ''/bin/bash'')"
    and x: "lower (strip (lit ''Exit'')) \<in> {lit ''exit'', lit ''quit''}
           \<and> detect_shell plain_world = Inr (lit ''/bin/bash'')"
    by (simp_all add: plain_shell lower_def strip_def lit_def isspace_def lower_cp_def)
  have l: "lower (strip (lit ''ls'')) \<notin> {[], lit ''clear'', lit ''cls'', lit ''exit'', lit ''quit''}"
    using ls_is_no_pseudo_command by (simp add: strip_ls)
  have "lower (strip (lit ''ls'')) \<notin> set [[], lit ''clear'', lit ''cls'']"
    and "lower (strip (lit ''ls'')) \<notin> set [lit ''exit'', lit ''quit'']"
    using l by simp_all
  then have r: "\<exists>resp h' w'. run_command plain_world (lit ''ls'') DEFAULT_HISTORY 100
                  = (Inr (resp, h'), w')"
    by (simp add: run_command_def plain_shell plain_save Let_def)
  have 1: "\<exists>resp. run_command plain_world (lit ''CLS'') DEFAULT_HISTORY 100
             = (Inr (resp, DEFAULT_HISTORY), plain_world)
           \<and> r_action resp = Some (lit ''clear'')"
    using run_command_action
      [of "lit ''CLS''" plain_world "lit ''/bin/bash''" DEFAULT_HISTORY 100,
       THEN conjunct1, rule_format, OF c]
    by blast
  have 2: "\<exists>resp. run_command plain_world (lit ''  '') DEFAULT_HISTORY 100
             = (Inr (resp, DEFAULT_HISTORY), plain_world)
           \<and> r_action resp = None"
    using run_command_action
      [of "lit ''  ''" plain_world "lit ''/bin/bash''" DEFAULT_HISTORY 100,
       THEN conjunct2, THEN conjunct1, rule_format, OF e]
    by blast
  have 3: "\<exists>resp. run_command plain_world (lit ''Exit'') DEFAULT_HISTORY 100
             = (Inr (resp, DEFAULT_HISTORY), plain_world)
           \<and> r_action resp = Some (lit ''exit'')"
    using run_command_action
      [of "lit ''Exit''" plain_world "lit ''/bin/bash''" DEFAULT_HISTORY 100,
       THEN conjunct2, THEN conjunct2, THEN conjunct1, rule_format, OF x]
    by blast
  have 4: "\<exists>resp h' w'. run_command plain_world (lit ''ls'') DEFAULT_HISTORY 100
             = (Inr (resp, h'), w')
           \<and> r_action resp = None"
    using r run_command_action
      [of "lit ''ls''" plain_world "lit ''/bin/bash''" DEFAULT_HISTORY 100,
       THEN conjunct2, THEN conjunct2, THEN conjunct2, rule_format, OF l]
    by blast
  from plain_shell 1 2 3 4 show ?thesis
    by (intro conjI)
qed

text \<open>
  The claim as it was written has every request \<^verbatim>\<open>clear\<close> answered with the action \<^verbatim>\<open>clear\<close>
  and exit code 0. With \<^verbatim>\<open>TERMINAL_BUDDY_SHELL\<close> naming a path whose test raises, the request
  is left by that \<^verbatim>\<open>OSError\<close> before the command is classified: there is no response.
\<close>

theorem run_command_action_no_response_counterexample:
  "lower (strip (lit ''clear'')) \<in> {lit ''clear'', lit ''cls''}
   \<and> fst (run_command locked_world (lit ''clear'') DEFAULT_HISTORY 100)
       = Inl (Exn OSError (lit ''Permission denied''))"
  by (simp add: run_command_def locked_shell lower_def strip_def lit_def isspace_def lower_cp_def)


section \<open>The entry point\<close>

text \<open>
  When loading the history, looking for the shell and printing the payload raise nothing,
  the history flag decides before the run flag is read.
\<close>

lemma main_history_first:
  assumes "arg_history a" and "load_history w = Inr h" and "detect_shell w = Inr shell"
    and "stdout_raises w (HistoryPayload
                            \<lparr>hp_type = lit ''history'', hp_history = get_history h,
                             hp_last_command = get_last_command h, hp_shell = shell\<rparr>) = None"
  shows "main w a =
           (Inr 0,
            w\<lparr>emitted := emitted w @
                 [HistoryPayload
                    \<lparr>hp_type = lit ''history'', hp_history = get_history h,
                     hp_last_command = get_last_command h, hp_shell = shell\<rparr>]\<rparr>)"
  using assms by (simp add: main_def emit_def)

text \<open>When \<open>main\<close> returns, it returns 1 without an action flag and 0 with one.\<close>

lemma main_returned_status:
  assumes "fst (main w a) = Inr n"
  shows "(n = 1 \<longleftrightarrow> \<not> arg_run a \<and> \<not> arg_history a) \<and> (n = 0 \<or> n = 1)"
  using assms
  by (auto simp add: main_def split: sum.splits if_splits prod.splits)

text \<open>
  C4, as amended. For a run request whose history loads, whose shell is found and whose
  command is not one of the pseudo commands, the text handed to the shell is the decoded
  command with the white space at both ends stripped, in the case it was given. That same
  text is the command of the response and the last command and first entry of the history
  record \<open>run_command\<close> returns, and, when the history can be saved, of the history file.
  Lowering serves the classification only.
\<close>

theorem main_runs_stripped_command:
  assumes "arg_run a" and "\<not> arg_history a"
    and "load_history w = Inr h"
    and "detect_shell w = Inr shell"
    and "decode_command (arg_encoded a) (arg_command a) = Inr decoded"
    and "lower (strip decoded) \<notin> {[], lit ''clear'', lit ''cls'', lit ''exit'', lit ''quit''}"
  shows "run_calls (snd (main w a)) = run_calls w @ [(strip decoded, shell)]
     \<and> (mkdir_raises w = None \<and> open_raises w = None \<and> dump_raises w = None \<longrightarrow>
          history_file (snd (main w a)) =
            Parsed (JObject
              [(lit ''last_command'', JString (strip decoded)),
               (lit ''history'',
                JArray (map JString
                  (take (nat (max 1 (arg_max_history a)))
                     (strip decoded # filter (\<lambda>entry. entry \<noteq> strip decoded) (get_history h)))))]))
     \<and> (\<forall>resp h1 w1.
          run_command w (strip decoded) h (max 1 (arg_max_history a)) = (Inr (resp, h1), w1) \<longrightarrow>
            r_command resp = strip decoded
            \<and> r_last_command resp = strip decoded
            \<and> r_history resp =
                take (nat (max 1 (arg_max_history a)))
                  (strip decoded # filter (\<lambda>entry. entry \<noteq> strip decoded) (get_history h))
            \<and> h1 = \<lparr>history =
                       Some (take (nat (max 1 (arg_max_history a)))
                               (strip decoded #
                                filter (\<lambda>entry. entry \<noteq> strip decoded) (get_history h))),
                     last_command = Some (strip decoded)\<rparr>)"
proof -
  let ?c = "strip decoded"
  let ?n = "max 1 (arg_max_history a)"
  let ?w1 = "w\<lparr>run_calls := run_calls w @ [(?c, shell)]\<rparr>"
  let ?kept = "take (nat ?n) (?c # filter (\<lambda>entry. entry \<noteq> ?c) (get_history h))"
  let ?h1 = "\<lparr>history = Some ?kept, last_command = Some ?c\<rparr>"
  have n: "0 \<le> ?n"
    by simp
  have u: "update_history h ?c ?n = ?h1"
    using n by (simp add: update_history_def Let_def slice_to_def)
  have cls: "lower (strip ?c) \<notin> set [[], lit ''clear'', lit ''cls'']"
    "lower (strip ?c) \<notin> set [lit ''exit'', lit ''quit'']"
    using assms(6) by (simp_all add: strip_idem)
  obtain r w2 where s: "save_history ?w1 ?h1 = (r, w2)"
    by (cases "save_history ?w1 ?h1")
  then have rc: "run_calls w2 = run_calls w @ [(?c, shell)]"
    by (auto dest: save_history_run_calls)
  let ?resp =
    "(case subprocess_run w ?c shell of
        Inr done \<Rightarrow>
          \<lparr>r_type = lit ''run'', r_command = ?c, r_stdout = stdout done, r_stderr = stderr done,
           r_exit_code = returncode done, r_shell = shell, r_history = get_history h,
           r_last_command = get_last_command h, r_action = None\<rparr>
      | Inl execution_error \<Rightarrow>
          \<lparr>r_type = lit ''run'', r_command = ?c, r_stdout = [],
           r_stderr = lit ''Execution error: '' @ exn_str execution_error,
           r_exit_code = - 1, r_shell = shell, r_history = get_history h,
           r_last_command = get_last_command h, r_action = None\<rparr>)
     \<lparr>r_history := ?kept, r_last_command := ?c\<rparr>"
  have run_eq: "run_command w ?c h ?n =
      (case r of Inl e \<Rightarrow> (Inl e, w2) | Inr x \<Rightarrow> (Inr (?resp, ?h1), w2))"
    using cls s assms(4)
    by (simp add: run_command_def Let_def u get_history_def get_last_command_def
        split: sum.splits)
  have resp: "r_command ?resp = ?c \<and> r_last_command ?resp = ?c \<and> r_history ?resp = ?kept"
    by (simp split: sum.splits)
  have frame: "run_calls (snd (main w a)) = run_calls w2
      \<and> history_file (snd (main w a)) = history_file w2"
    using assms(1,2,3,5) run_eq
    by (auto simp add: main_def emit_def split: sum.splits option.splits)
  have calls: "run_calls (snd (main w a)) = run_calls w @ [(?c, shell)]"
    using frame rc by simp
  have stored: "history_file (snd (main w a)) =
      Parsed (JObject [(lit ''last_command'', JString ?c),
                       (lit ''history'', JArray (map JString ?kept))])"
    if "mkdir_raises w = None \<and> open_raises w = None \<and> dump_raises w = None"
    using that s frame by (auto simp add: save_history_def json_of_hist_def)
  have returned: "r_command resp' = ?c \<and> r_last_command resp' = ?c
      \<and> r_history resp' = ?kept \<and> h1 = ?h1"
    if "run_command w ?c h ?n = (Inr (resp', h1), w1)" for resp' h1 w1
    using that run_eq resp by (cases r) auto
  from calls stored returned show ?thesis
    by blast
qed

theorem main_runs_stripped_command_witness:
  "arg_run (encoded_args (lit ''ICBscyAg'')) \<and> \<not> arg_history (encoded_args (lit ''ICBscyAg''))
   \<and> load_history plain_world = Inr DEFAULT_HISTORY
   \<and> detect_shell plain_world = Inr (lit ''/bin/bash'')
   \<and> decode_command (arg_encoded (encoded_args (lit ''ICBscyAg'')))
        (arg_command (encoded_args (lit ''ICBscyAg''))) = Inr (lit ''  ls  '')
   \<and> lower (strip (lit ''  ls  '')) \<notin> {[], lit ''clear'', lit ''cls'', lit ''exit'', lit ''quit''}
   \<and> mkdir_raises plain_world = None \<and> open_raises plain_world = None
   \<and> dump_raises plain_world = None
   \<and> run_calls (snd (main plain_world (encoded_args (lit ''ICBscyAg''))))
        = [(lit ''ls'', lit ''/bin/bash'')]
   \<and> history_file (snd (main plain_world (encoded_args (lit ''ICBscyAg''))))
        = Parsed (JObject [(lit ''last_command'', JString (lit ''ls'')),
                           (lit ''history'', JArray [JString (lit ''ls'')])])"
proof -
  have 1: "arg_run (encoded_args (lit ''ICBscyAg''))"
    and 2: "\<not> arg_history (encoded_args (lit ''ICBscyAg''))"
    by (simp_all add: encoded_args_def)
  have 4: "decode_command (arg_encoded (encoded_args (lit ''ICBscyAg'')))
        (arg_command (encoded_args (lit ''ICBscyAg''))) = Inr (lit ''  ls  '')"
    by (simp add: encoded_args_def decode_padded_ls)
  have 5: "lower (strip (lit ''  ls  '')) \<notin> {[], lit ''clear'', lit ''cls'', lit ''exit'', lit ''quit''}"
    using ls_is_no_pseudo_command by (simp add: strip_padded_ls)
  have 6: "mkdir_raises plain_world = None \<and> open_raises plain_world = None
           \<and> dump_raises plain_world = None"
    and 7: "run_calls plain_world = []"
    by (simp_all add: plain_world_def)
  have 8: "get_history DEFAULT_HISTORY = []"
    and 9: "arg_max_history (encoded_args (lit ''ICBscyAg'')) = 100"
    by (simp_all add: get_history_def DEFAULT_HISTORY_def encoded_args_def MAX_HISTORY_DEFAULT_def)
  note t = main_runs_stripped_command [OF 1 2 plain_load plain_shell 4 5]
  from t [THEN conjunct1] t [THEN conjunct2, THEN conjunct1, rule_format, OF 6]
    1 2 plain_load plain_shell 4 5 6
  show ?thesis
    by (simp add: strip_padded_ls 7 8 9)
qed

text \<open>
  The claim as it was written has the decoded command reach the shell and the history
  untrimmed. The payload \<^verbatim>\<open>ICBscyAg\<close> decodes to \<^verbatim>\<open>ls\<close> between two spaces on either side;
  the shell is called with \<^verbatim>\<open>ls\<close> and the file stores \<^verbatim>\<open>ls\<close>, the spaces gone.
\<close>

theorem main_strips_command_counterexample:
  "decode_command (arg_encoded (encoded_args (lit ''ICBscyAg'')))
      (arg_command (encoded_args (lit ''ICBscyAg''))) = Inr (lit ''  ls  '')
   \<and> run_calls (snd (main plain_world (encoded_args (lit ''ICBscyAg''))))
        = [(lit ''ls'', lit ''/bin/bash'')]
   \<and> history_file (snd (main plain_world (encoded_args (lit ''ICBscyAg''))))
        = Parsed (JObject [(lit ''last_command'', JString (lit ''ls'')),
                           (lit ''history'', JArray [JString (lit ''ls'')])])
   \<and> lit ''ls'' \<noteq> lit ''  ls  ''"
proof -
  have d: "decode_command (arg_encoded (encoded_args (lit ''ICBscyAg'')))
      (arg_command (encoded_args (lit ''ICBscyAg''))) = Inr (lit ''  ls  '')"
    by (simp add: encoded_args_def decode_padded_ls)
  have c: "lower (strip (lit ''ls'')) \<notin> set [[], lit ''clear'', lit ''cls'']"
    "lower (strip (lit ''ls'')) \<notin> set [lit ''exit'', lit ''quit'']"
    using ls_is_no_pseudo_command by (simp_all add: strip_ls)
  have f: "arg_run (encoded_args (lit ''ICBscyAg''))"
    "\<not> arg_history (encoded_args (lit ''ICBscyAg''))"
    "arg_max_history (encoded_args (lit ''ICBscyAg'')) = 100"
    by (simp_all add: encoded_args_def MAX_HISTORY_DEFAULT_def)
  have u: "update_history DEFAULT_HISTORY (lit ''ls'') 100
           = \<lparr>history = Some [lit ''ls''], last_command = Some (lit ''ls'')\<rparr>"
    by (simp add: update_history_def DEFAULT_HISTORY_def get_history_def slice_to_def Let_def)
  have r: "run_calls plain_world = []"
    by (simp add: plain_world_def)
  have o: "stdout_raises (plain_world\<lparr>run_calls := calls, history_file := f\<rparr>) p = None"
    for calls f p
    by (simp add: plain_world_def)
  have m: "snd (main plain_world (encoded_args (lit ''ICBscyAg'')))
     = plain_world\<lparr>run_calls := [(lit ''ls'', lit ''/bin/bash'')],
                   history_file := Parsed (json_of_hist
                      \<lparr>history = Some [lit ''ls''], last_command = Some (lit ''ls'')\<rparr>),
                   emitted := emitted plain_world @
                     [RunPayload
                        \<lparr>r_type = lit ''run'', r_command = lit ''ls'', r_stdout = [], r_stderr = [],
                         r_exit_code = 0, r_shell = lit ''/bin/bash'', r_history = [lit ''ls''],
                         r_last_command = lit ''ls'', r_action = None\<rparr>]\<rparr>"
    using c
    by (simp add: main_def plain_load d f strip_padded_ls run_command_def Let_def plain_shell r
        plain_save u get_history_def get_last_command_def emit_def o)
      (simp add: plain_world_def)
  have n: "lit ''ls'' \<noteq> lit ''  ls  ''"
    by (simp add: lit_def)
  show ?thesis
    using n by (simp add: d m json_of_hist_def)
qed

text \<open>
  C1. The claim has the process end with a status other than 0 only when neither flag is
  given, every failure of saving the history being kept inside the JSON payload. With the
  run flag, the command \<^verbatim>\<open>ls\<close> and a history directory that cannot be made, the \<^verbatim>\<open>OSError\<close> of
  \<^verbatim>\<open>mkdir\<close> leaves \<open>main\<close>: the process ends with status 1 and has written no payload.
\<close>

theorem main_mkdir_failure_exit_status:
  "arg_run (run_args (lit ''ls''))
   \<and> fst (main (plain_world\<lparr>mkdir_raises := Some (Exn OSError (lit ''Permission denied''))\<rparr>)
            (run_args (lit ''ls'')))
       = Inl (Exn OSError (lit ''Permission denied''))
   \<and> exit_status
        (fst (main (plain_world\<lparr>mkdir_raises := Some (Exn OSError (lit ''Permission denied''))\<rparr>)
                (run_args (lit ''ls'')))) = 1
   \<and> emitted
        (snd (main (plain_world\<lparr>mkdir_raises := Some (Exn OSError (lit ''Permission denied''))\<rparr>)
                (run_args (lit ''ls'')))) = []"
proof -
  have c: "lower (strip (lit ''ls'')) \<notin> set [[], lit ''clear'', lit ''cls'']"
    "lower (strip (lit ''ls'')) \<notin> set [lit ''exit'', lit ''quit'']"
    using ls_is_no_pseudo_command by (simp_all add: strip_ls)
  have l: "load_history (plain_world\<lparr>mkdir_raises := Some (Exn OSError (lit ''Permission denied''))\<rparr>)
           = Inr DEFAULT_HISTORY"
    by (simp add: load_history_def plain_world_def)
  have e: "emitted plain_world = []"
    by (simp add: plain_world_def)
  show ?thesis
    using c
    by (simp add: main_def l run_args_def decode_command_def strip_ls run_command_def
        plain_shell_mkdir save_history_def Let_def exit_status_def e)
qed

text \<open>
  C10. The claim has every invocation with both flags answer with the history and end with
  status 0. With both flags and a history file whose bytes are not UTF-8, the
  \<^verbatim>\<open>UnicodeDecodeError\<close> of the read leaves \<open>load_history\<close> and \<open>main\<close> before any flag is
  looked at: the process ends with status 1 and no payload is written.
\<close>

theorem main_both_flags_load_failure:
  "arg_history both_args \<and> arg_run both_args
   \<and> main (plain_world\<lparr>history_file := ReadRaises (Exn UnicodeDecodeError (lit ''invalid start byte''))\<rparr>)
        both_args
       = (Inl (Exn UnicodeDecodeError (lit ''invalid start byte'')),
          plain_world\<lparr>history_file := ReadRaises (Exn UnicodeDecodeError (lit ''invalid start byte''))\<rparr>)
   \<and> exit_status
        (fst (main (plain_world\<lparr>history_file :=
                       ReadRaises (Exn UnicodeDecodeError (lit ''invalid start byte''))\<rparr>)
                both_args)) = 1"
  by (simp add: main_def load_history_def catches_def issubclass_def both_args_def exit_status_def)

end
